theory Spec2Isabelle
  imports Main
begin

section \<open>The export command of pkg/cmd/cli/cmd/export.go\<close>

text \<open>
  \<^verbatim>\<open>RunExport\<close> fetches resources, lets an \<^verbatim>\<open>Exporter\<close> clear
  generated fields in place, wraps the survivors in a single object, a list or a template,
  and prints the result. Every collaborator of the function (the client factory, the
  resource builder, the exporter, the conversion scheme, the printer) is a parameter of
  the model; every call to one of them is recorded in a trace of events, so that
  "is never called" is a statement about the trace.
\<close>

subsection \<open>Errors\<close>

text \<open>
  Go's \<^verbatim>\<open>error\<close> values. \<^verbatim>\<open>ErrExportOmit\<close> is a package variable that the
  code compares by identity (\<^verbatim>\<open>err == ErrExportOmit\<close>), so it is a constructor of its
  own, different from every \<^verbatim>\<open>Errorf\<close> error whatever its text.
  \<^verbatim>\<open>Collaborator\<close> stands for the errors the external packages return.
\<close>

datatype error =
    UsageError string
  | Errorf string
  | ErrExportOmit
  | Aggregate "error list"
  | Collaborator string

text \<open>
  Modelled from the spec: \<^verbatim>\<open>utilerrors.NewAggregate\<close> (vendored, not among the sources)
  builds "an aggregate error that itemizes each document's failure (all failures reported
  together, none discarded)".
\<close>

definition NewAggregate :: "error list \<Rightarrow> error" where
  "NewAggregate errs = Aggregate errs"

subsection \<open>Flags, documents and results\<close>

text \<open>The flags \<^verbatim>\<open>RunExport\<close> reads from the cobra command.\<close>

record cmd_flags =
  flag_selector :: string
  flag_all_namespaces :: bool
  flag_exact :: bool
  flag_as_template :: string
  flag_raw :: bool
  flag_output :: string
  flag_template :: string
  flag_output_version :: string

text \<open>
  \<^verbatim>\<open>runtime.Object\<close>: a resource of some kind (its content is the parameter
  \<open>'o\<close>), an \<^verbatim>\<open>api.List\<close> with its \<^verbatim>\<open>Items\<close>, or a
  \<^verbatim>\<open>templateapi.Template\<close> with its \<^verbatim>\<open>Name\<close> and \<^verbatim>\<open>Objects\<close>.
\<close>

datatype 'o runtime_object =
    Resource 'o
  | ApiList "'o runtime_object list"
  | Template string "'o runtime_object list"

text \<open>
  \<^verbatim>\<open>resource.Info\<close>: one fetched document. \<^verbatim>\<open>Object\<close> is the
  \<^verbatim>\<open>runtime.Object\<close> the exporter mutates in place.
\<close>

record 'o Info =
  Namespace :: string
  Name :: string
  Object :: "'o runtime_object"

text \<open>
  The parameters given to \<^verbatim>\<open>resource.NewBuilder\<close> (lines 102-108); the mapper, the
  typer and the client mapper come from the factory and are not modelled apart from it.
\<close>

record builder =
  NamespaceParam :: string
  AllNamespaces :: bool
  FilenameExplicit :: bool
  FilenameParam :: "string list"
  SelectorParam :: string
  ResourceTypeOrNameArgs :: "string list"

subsection \<open>Collaborators and the trace of their calls\<close>

text \<open>
  The client factory \<^verbatim>\<open>f\<close>: \<^verbatim>\<open>ClientConfig\<close> gives the client's API version,
  \<^verbatim>\<open>DefaultNamespace\<close> the namespace and whether it was given explicitly, and
  \<^verbatim>\<open>Infos\<close> is \<^verbatim>\<open>b.Do().IntoSingular(&one).Infos()\<close> on the builder made from the
  factory: the fetch, which returns the flag \<^verbatim>\<open>one\<close> and the documents.
\<close>

record 'o Factory =
  ClientConfig :: "error + string"
  DefaultNamespace :: "error + string \<times> bool"
  Infos :: "builder \<Rightarrow> error + bool \<times> 'o Info list"

text \<open>
  \<^verbatim>\<open>Exporter.Export(obj, exact)\<close> mutates the object and returns an error or nil:
  the model returns the object after the call and the error. The exporter of the command
  is \<^verbatim>\<open>&defaultExporter{}\<close> (line 53), a value without fields, so what a call
  does depends on its arguments only. Each fetched \<^verbatim>\<open>Info\<close> owns its object: no
  two entries of \<^verbatim>\<open>infos\<close> share one.
\<close>

type_synonym 'o Exporter = "'o runtime_object \<Rightarrow> bool \<Rightarrow> 'o runtime_object \<times> error option"

text \<open>
  The package-level collaborators: the conversion of one document to a version (used by
  \<^verbatim>\<open>resource.AsVersionedObjects\<close>), \<^verbatim>\<open>kapi.Scheme.ConvertToVersion\<close> on a wrapper
  object, and \<^verbatim>\<open>kubectl.GetPrinter\<close>, whose printer writes bytes to \<^verbatim>\<open>out\<close> and
  returns an error or nil.
\<close>

record 'o Packages =
  tryConvert :: "'o runtime_object \<Rightarrow> string \<Rightarrow> error + 'o runtime_object"
  ConvertToVersion :: "'o runtime_object \<Rightarrow> string \<Rightarrow> error + 'o runtime_object"
  GetPrinter :: "string \<Rightarrow> string \<Rightarrow> error + ('o runtime_object \<Rightarrow> string \<times> error option)"

datatype 'o event =
    CallClientConfig
  | CallDefaultNamespace
  | CallNewBuilder builder
  | CallInfos builder
  | CallExport "'o runtime_object" bool
  | CallAsVersionedObjects "'o Info list" string
  | CallAsVersionedObject "'o Info list" bool string
  | CallConvertToVersion "'o runtime_object" string
  | CallGetPrinter string string
  | CallPrintObj "'o runtime_object"
  | WriteOut string

text \<open>
  A step of the function: the calls it made, and an error (an early \<^verbatim>\<open>return err\<close>)
  or a value. \<open>then_step\<close> runs the rest of the function after a step that did not
  return an error.
\<close>

type_synonym ('o, 'a) step = "'o event list \<times> (error + 'a)"

definition then_step :: "('o, 'a) step \<Rightarrow> ('a \<Rightarrow> ('o, 'b) step) \<Rightarrow> ('o, 'b) step" where
  "then_step m k =
     (case m of
        (evs, Inl e) \<Rightarrow> (evs, Inl e)
      | (evs, Inr a) \<Rightarrow> (case k a of (evs', r) \<Rightarrow> (evs @ evs', r)))"

subsection \<open>The steps of RunExport\<close>

text \<open>
  Modelled from the spec: \<^verbatim>\<open>cmdutil.OutputVersion\<close> (vendored, not among the sources):
  "an optional output API version override (defaults to the client's configured version)".
\<close>

definition OutputVersion :: "cmd_flags \<Rightarrow> string \<Rightarrow> string" where
  "OutputVersion cmd defaultVersion =
     (if length (flag_output_version cmd) = 0 then defaultVersion else flag_output_version cmd)"

text \<open>
  Lines 123-131, the loop over \<^verbatim>\<open>infos\<close>. The state of the loop is
  \<^verbatim>\<open>newInfos\<close>, \<^verbatim>\<open>errs\<close> and the calls made so far. On \<^verbatim>\<open>ErrExportOmit\<close>
  the loop continues with the next document; on any other error it appends the error and
  then, like on success, falls through to \<^verbatim>\<open>newInfos = append(newInfos, info)\<close>.
  The info that is appended holds the object as \<^verbatim>\<open>Export\<close> left it.
\<close>

fun sanitize_loop ::
  "'o Exporter \<Rightarrow> bool \<Rightarrow> 'o Info list \<Rightarrow> 'o Info list \<times> error list \<times> 'o event list
     \<Rightarrow> 'o Info list \<times> error list \<times> 'o event list" where
  "sanitize_loop exporter exact [] st = st"
| "sanitize_loop exporter exact (info # infos) (newInfos, errs, evs) =
     (case exporter (Object info) exact of
        (obj, err) \<Rightarrow>
          (let evs' = evs @ [CallExport (Object info) exact];
               info' = info\<lparr>Object := obj\<rparr>
           in case err of
                None \<Rightarrow> sanitize_loop exporter exact infos (newInfos @ [info'], errs, evs')
              | Some e \<Rightarrow>
                  if e = ErrExportOmit
                  then sanitize_loop exporter exact infos (newInfos, errs, evs')
                  else sanitize_loop exporter exact infos (newInfos @ [info'], errs @ [e], evs')))"

text \<open>Lines 120-136: the pass is skipped under \<^verbatim>\<open>--raw\<close>.\<close>

definition sanitize_pass ::
  "'o Exporter \<Rightarrow> bool \<Rightarrow> bool \<Rightarrow> 'o Info list \<Rightarrow> ('o, 'o Info list) step" where
  "sanitize_pass exporter raw exact infos =
     (if \<not> raw then
        (case sanitize_loop exporter exact infos ([], [], []) of
           (newInfos, errs, evs) \<Rightarrow>
             if length errs > 0 then (evs, Inl (NewAggregate errs))
             else (evs, Inr newInfos))
      else ([], Inr infos))"

text \<open>
  Modelled from the spec: \<^verbatim>\<open>resource.AsVersionedObjects\<close> (vendored, not among the
  sources): "All paths convert every contained document to the requested output API
  version before returning; a conversion failure for any contained document fails the
  whole aggregate operation."
\<close>

fun AsVersionedObjects ::
  "'o Packages \<Rightarrow> 'o Info list \<Rightarrow> string \<Rightarrow> error + 'o runtime_object list" where
  "AsVersionedObjects pk [] version = Inr []"
| "AsVersionedObjects pk (info # infos) version =
     (case tryConvert pk (Object info) version of
        Inl e \<Rightarrow> Inl e
      | Inr converted \<Rightarrow>
          (case AsVersionedObjects pk infos version of
             Inl e \<Rightarrow> Inl e
           | Inr objects \<Rightarrow> Inr (converted # objects)))"

text \<open>
  Modelled from the spec: \<^verbatim>\<open>resource.AsVersionedObject(infos, forceList, version)\<close>
  (vendored, not among the sources): "if there is exactly one surviving document and the
  caller indicates a singular match was requested, return that document directly as a
  single object (not wrapped in a list)", "Otherwise wrap all surviving documents into an
  ordered list container, preserving fetch order", and the aggregated result is converted
  "to the user-requested output API version". The caller's indication is the argument
  \<^verbatim>\<open>forceList\<close>, false when a singular match was requested.
\<close>

definition AsVersionedObject ::
  "'o Packages \<Rightarrow> 'o Info list \<Rightarrow> bool \<Rightarrow> string \<Rightarrow> error + 'o runtime_object" where
  "AsVersionedObject pk infos forceList version =
     (case AsVersionedObjects pk infos version of
        Inl e \<Rightarrow> Inl e
      | Inr objects \<Rightarrow>
          (case objects of
             [object] \<Rightarrow>
               if \<not> forceList then Inr object
               else ConvertToVersion pk (ApiList objects) version
           | _ \<Rightarrow> ConvertToVersion pk (ApiList objects) version))"

text \<open>Lines 138-158: a template when \<^verbatim>\<open>--as-template\<close> is given, else an object or list.\<close>

definition aggregate ::
  "'o Packages \<Rightarrow> string \<Rightarrow> bool \<Rightarrow> 'o Info list \<Rightarrow> string \<Rightarrow> ('o, 'o runtime_object) step" where
  "aggregate pk asTemplate one infos outputVersion =
     (if length asTemplate > 0 then
        then_step ([CallAsVersionedObjects infos outputVersion],
                   AsVersionedObjects pk infos outputVersion)
          (\<lambda>objects.
             let template = Template asTemplate objects
             in ([CallConvertToVersion template outputVersion],
                 ConvertToVersion pk template outputVersion))
      else
        ([CallAsVersionedObject infos (\<not> one) outputVersion],
         AsVersionedObject pk infos (\<not> one) outputVersion))"

text \<open>Lines 160-168: YAML is the default format, unless a template file is given.\<close>

definition output_format :: "cmd_flags \<Rightarrow> string" where
  "output_format cmd =
     (let outputFormat = flag_output cmd;
          templateFile = flag_template cmd;
          outputFormat = (if length outputFormat = 0 \<and> length templateFile \<noteq> 0
                          then ''template'' else outputFormat);
          outputFormat = (if length outputFormat = 0 then ''yaml'' else outputFormat)
      in outputFormat)"

text \<open>Lines 160-173: choose the printer and print the result to \<^verbatim>\<open>out\<close>.\<close>

definition render :: "'o Packages \<Rightarrow> cmd_flags \<Rightarrow> 'o runtime_object \<Rightarrow> ('o, unit) step" where
  "render pk cmd result =
     (let outputFormat = output_format cmd;
          templateFile = flag_template cmd
      in then_step ([CallGetPrinter outputFormat templateFile],
                    GetPrinter pk outputFormat templateFile)
           (\<lambda>p. case p result of
                   (written, err) \<Rightarrow>
                     ([CallPrintObj result, WriteOut written],
                      (case err of None \<Rightarrow> Inr () | Some e \<Rightarrow> Inl e))))"

text \<open>Lines 103-108: the builder for the fetch.\<close>

definition export_builder ::
  "cmd_flags \<Rightarrow> string \<Rightarrow> bool \<Rightarrow> string list \<Rightarrow> string list \<Rightarrow> builder" where
  "export_builder cmd cmdNamespace explicit args filenames =
     \<lparr>NamespaceParam = cmdNamespace, AllNamespaces = flag_all_namespaces cmd,
      FilenameExplicit = explicit, FilenameParam = filenames,
      SelectorParam = flag_selector cmd, ResourceTypeOrNameArgs = args\<rparr>"

text \<open>
  \<^verbatim>\<open>RunExport\<close>, lines 81-174. The result is the trace of calls and the returned
  error (\<open>Inr ()\<close> is Go's \<^verbatim>\<open>nil\<close>).
\<close>

definition RunExport ::
  "'o Packages \<Rightarrow> 'o Factory \<Rightarrow> 'o Exporter \<Rightarrow> cmd_flags \<Rightarrow> string list \<Rightarrow> string list
     \<Rightarrow> ('o, unit) step" where
  "RunExport pk f exporter cmd args filenames =
     (let exact = flag_exact cmd;
          asTemplate = flag_as_template cmd;
          raw = flag_raw cmd
      in if exact \<and> raw
         then ([], Inl (UsageError ''--exact and --raw may not both be specified''))
         else
           then_step ([CallClientConfig], ClientConfig f) (\<lambda>clientVersion.
           let outputVersion = OutputVersion cmd clientVersion in
           then_step ([CallDefaultNamespace], DefaultNamespace f) (\<lambda>(cmdNamespace, explicit).
           let b = export_builder cmd cmdNamespace explicit args filenames in
           then_step ([CallNewBuilder b, CallInfos b], Infos f b) (\<lambda>(one, infos).
           if length infos = 0
           then ([], Inl (Errorf ''no resources found - nothing to export''))
           else
             then_step (sanitize_pass exporter raw exact infos) (\<lambda>infos.
             then_step (aggregate pk asTemplate one infos outputVersion) (\<lambda>result.
             render pk cmd result))))))"

subsection \<open>Reading a trace\<close>

text \<open>
  What a trace says: the calls to \<^verbatim>\<open>Export\<close>, the collections handed to the two
  aggregation helpers and the objects handed to the printer.
\<close>

fun export_call :: "'o event \<Rightarrow> ('o runtime_object \<times> bool) option" where
  "export_call (CallExport obj exact) = Some (obj, exact)"
| "export_call _ = None"

fun aggregation_input :: "'o event \<Rightarrow> 'o Info list option" where
  "aggregation_input (CallAsVersionedObjects infos version) = Some infos"
| "aggregation_input (CallAsVersionedObject infos forceList version) = Some infos"
| "aggregation_input _ = None"

fun printed_object :: "'o event \<Rightarrow> 'o runtime_object option" where
  "printed_object (CallPrintObj obj) = Some obj"
| "printed_object _ = None"

definition export_calls :: "'o event list \<Rightarrow> ('o runtime_object \<times> bool) list" where
  "export_calls evs = List.map_filter export_call evs"

definition aggregation_inputs :: "'o event list \<Rightarrow> 'o Info list list" where
  "aggregation_inputs evs = List.map_filter aggregation_input evs"

definition printed_objects :: "'o event list \<Rightarrow> 'o runtime_object list" where
  "printed_objects evs = List.map_filter printed_object evs"

text \<open>
  What \<^verbatim>\<open>Export\<close> does to one fetched document: the info with its object as the
  call left it, and the error the call returned.
\<close>

definition exported :: "'o Exporter \<Rightarrow> bool \<Rightarrow> 'o Info \<Rightarrow> 'o Info" where
  "exported exporter exact info = info\<lparr>Object := fst (exporter (Object info) exact)\<rparr>"

definition export_err :: "'o Exporter \<Rightarrow> bool \<Rightarrow> 'o Info \<Rightarrow> error option" where
  "export_err exporter exact info = snd (exporter (Object info) exact)"

text \<open>
  The errors of a pass over \<open>infos\<close> that are not the skip signal, in fetch order, and
  the documents that did not produce the skip signal, as \<^verbatim>\<open>Export\<close> left them.
\<close>

definition failures :: "'o Exporter \<Rightarrow> bool \<Rightarrow> 'o Info list \<Rightarrow> error list" where
  "failures exporter exact infos =
     filter (\<lambda>e. e \<noteq> ErrExportOmit) (List.map_filter (export_err exporter exact) infos)"

definition not_omitted :: "'o Exporter \<Rightarrow> bool \<Rightarrow> 'o Info list \<Rightarrow> 'o Info list" where
  "not_omitted exporter exact infos =
     map (exported exporter exact)
       (filter (\<lambda>info. export_err exporter exact info \<noteq> Some ErrExportOmit) infos)"

text \<open>The calls up to and including the fetch (lines 91-111).\<close>

definition fetch_events :: "builder \<Rightarrow> 'o event list" where
  "fetch_events b = [CallClientConfig, CallDefaultNamespace, CallNewBuilder b, CallInfos b]"

subsection \<open>The field sanitizer\<close>

text \<open>
  Modelled from the spec: the implementation of \<^verbatim>\<open>Exporter.Export\<close> (the
  \<^verbatim>\<open>defaultExporter\<close> of the same package) is not among the sources; only its caller
  \<^verbatim>\<open>RunExport\<close> is. The spec gives the contract
  \<^verbatim>\<open>Sanitize(doc, policy) -> void | SkipSignal | error\<close>, called with the policy
  \<^verbatim>\<open>Exact\<close> or \<^verbatim>\<open>Default\<close> and never under \<^verbatim>\<open>Raw\<close>. A document has a kind,
  an API version and "a generic key-value tree": here the list of its leaves, each a path
  with a value. "The sanitizer dispatches on the document's kind to a kind-specific
  clearing routine; unknown kinds fall back to a generic routine". A routine clears
  fields: those "unconditionally unsafe to replay" under both policies, and under
  \<^verbatim>\<open>Default\<close> "additionally" those "considered environment-specific"; clearing a path
  removes the subtree below it. A routine "may signal that this particular document
  instance should be dropped", or fail. Which fields a kind clears is, in the spec's
  words, "a configuration table to be populated per target system, not inferred from this
  spec": the table is the parameter \<open>sanitizer\<close>. The spec does not say what a
  routine that signals a skip or fails has done to the document; the model leaves the
  document as it was, and no later step reads it (it is dropped, or the run fails).
\<close>

type_synonym path = "string list"

record document =
  doc_kind :: string
  doc_version :: string
  doc_content :: "(path \<times> string) list"

datatype policy = Default | Exact

datatype signal = Sanitized | SkipSignal | Failed string

record routine =
  unsafe_fields :: "path list"
  environment_fields :: "path list"
  synthetic :: "document \<Rightarrow> bool"
  failure :: "document \<Rightarrow> string option"

record sanitizer =
  registry :: "string \<Rightarrow> routine option"
  generic_routine :: routine

definition under :: "path \<Rightarrow> path \<Rightarrow> bool" where
  "under p k = (take (length p) k = p)"

definition clear_field :: "path \<Rightarrow> (path \<times> string) list \<Rightarrow> (path \<times> string) list" where
  "clear_field p content = filter (\<lambda>entry. \<not> under p (fst entry)) content"

fun clear_fields :: "path list \<Rightarrow> (path \<times> string) list \<Rightarrow> (path \<times> string) list" where
  "clear_fields [] content = content"
| "clear_fields (p # ps) content = clear_fields ps (clear_field p content)"

definition cleared_by :: "routine \<Rightarrow> policy \<Rightarrow> path list" where
  "cleared_by r p =
     (case p of Exact \<Rightarrow> unsafe_fields r
      | Default \<Rightarrow> unsafe_fields r @ environment_fields r)"

definition routine_for :: "sanitizer \<Rightarrow> document \<Rightarrow> routine" where
  "routine_for s doc =
     (case registry s (doc_kind doc) of None \<Rightarrow> generic_routine s | Some r \<Rightarrow> r)"

definition Sanitize :: "sanitizer \<Rightarrow> document \<Rightarrow> policy \<Rightarrow> document \<times> signal" where
  "Sanitize s doc p =
     (let r = routine_for s doc
      in if synthetic r doc then (doc, SkipSignal)
         else case failure r doc of
                Some msg \<Rightarrow> (doc, Failed msg)
              | None \<Rightarrow>
                  (doc\<lparr>doc_content := clear_fields (cleared_by r p) (doc_content doc)\<rparr>,
                   Sanitized))"

text \<open>
  A table for the spec's end-to-end scenario: a service whose resource version is always
  cleared and whose generated address and status are cleared under \<^verbatim>\<open>Default\<close> only.
\<close>

definition demo_sanitizer :: sanitizer where
  "demo_sanitizer =
     \<lparr>registry = (\<lambda>kind.
        if kind = ''Service''
        then Some \<lparr>unsafe_fields = [[''resourceVersion'']],
                   environment_fields = [[''generatedIP''], [''status'']],
                   synthetic = (\<lambda>doc. False), failure = (\<lambda>doc. None)\<rparr>
        else None),
      generic_routine = \<lparr>unsafe_fields = [[''resourceVersion''], [''status'']],
                         environment_fields = [],
                         synthetic = (\<lambda>doc. False), failure = (\<lambda>doc. None)\<rparr>\<rparr>"

definition demo_service :: document where
  "demo_service =
     \<lparr>doc_kind = ''Service'', doc_version = ''v1'',
      doc_content = [([''name''], ''a''), ([''generatedIP''], ''10.0.0.5''),
                     ([''resourceVersion''], ''123''), ([''status'', ''ready''], ''true'')]\<rparr>"

subsection \<open>A concrete setting for evaluation\<close>

text \<open>
  Documents are a name with the list of fields they hold. The exporter omits a document
  that holds a token, fails on a broken one, and otherwise removes the resource version
  and, unless \<^verbatim>\<open>exact\<close>, the cluster IP. The fetch answers three selections; the
  conversions change nothing and the printer writes the name of its format.
\<close>

definition demo_cmd :: cmd_flags where
  "demo_cmd = \<lparr>flag_selector = [], flag_all_namespaces = False, flag_exact = False,
     flag_as_template = [], flag_raw = False, flag_output = [], flag_template = [],
     flag_output_version = []\<rparr>"

definition demo_info :: "string \<Rightarrow> string list \<Rightarrow> (string \<times> string list) Info" where
  "demo_info n keys = \<lparr>Namespace = ''default'', Name = n, Object = Resource (n, keys)\<rparr>"

definition demo_exporter :: "(string \<times> string list) Exporter" where
  "demo_exporter obj exact =
     (case obj of
        Resource (n, keys) \<Rightarrow>
          if ''token'' \<in> set keys then (obj, Some ErrExportOmit)
          else if ''broken'' \<in> set keys then (obj, Some (Errorf (''cannot export '' @ n)))
          else (Resource (n, filter (\<lambda>x. x \<noteq> ''resourceVersion''
                                        \<and> (exact \<or> x \<noteq> ''clusterIP'')) keys), None)
      | _ \<Rightarrow> (obj, None))"

definition demo_factory :: "(string \<times> string list) Factory" where
  "demo_factory =
     \<lparr>ClientConfig = Inr ''v1'',
      DefaultNamespace = Inr (''default'', False),
      Infos = (\<lambda>b.
        if ResourceTypeOrNameArgs b = [''svc/a'']
        then Inr (True, [demo_info ''a'' [''clusterIP'', ''resourceVersion'', ''ports'']])
        else if ResourceTypeOrNameArgs b = [''svc,secret'']
        then Inr (False, [demo_info ''a'' [''clusterIP'', ''resourceVersion'', ''ports''],
                          demo_info ''t'' [''token''],
                          demo_info ''b'' [''ports'']])
        else if ResourceTypeOrNameArgs b = [''dc'']
        then Inr (False, [demo_info ''d1'' [''broken''],
                          demo_info ''d2'' [''resourceVersion''],
                          demo_info ''d3'' [''broken'']])
        else Inr (False, []))\<rparr>"

definition demo_packages :: "(string \<times> string list) Packages" where
  "demo_packages =
     \<lparr>tryConvert = (\<lambda>obj version. Inr obj),
      ConvertToVersion = (\<lambda>obj version. Inr obj),
      GetPrinter = (\<lambda>outputFormat templateFile. Inr (\<lambda>obj. (outputFormat, None)))\<rparr>"

section \<open>Properties\<close>

subsection \<open>Steps and traces\<close>

lemmas demo_defs = demo_cmd_def demo_info_def demo_exporter_def demo_factory_def
  demo_packages_def export_builder_def fetch_events_def

lemma then_step_Inl: "then_step (evs, Inl e) k = (evs, Inl e)"
  by (simp add: then_step_def)

lemma then_step_Inr: "then_step (evs, Inr a) k = (evs @ fst (k a), snd (k a))"
  by (simp add: then_step_def split: prod.splits)

lemma then_step_cases:
  "then_step m k =
     (case snd m of Inl e \<Rightarrow> (fst m, Inl e) | Inr a \<Rightarrow> (fst m @ fst (k a), snd (k a)))"
  by (cases m) (simp add: then_step_def split: sum.splits prod.splits)

lemma export_calls_append [simp]: "export_calls (xs @ ys) = export_calls xs @ export_calls ys"
  by (simp add: export_calls_def map_filter_def)

lemma aggregation_inputs_append [simp]:
  "aggregation_inputs (xs @ ys) = aggregation_inputs xs @ aggregation_inputs ys"
  by (simp add: aggregation_inputs_def map_filter_def)

lemma printed_objects_append [simp]:
  "printed_objects (xs @ ys) = printed_objects xs @ printed_objects ys"
  by (simp add: printed_objects_def map_filter_def)

lemma observe_Nil [simp]:
  "export_calls [] = []" "aggregation_inputs [] = []" "printed_objects [] = []"
  by (simp_all add: export_calls_def aggregation_inputs_def printed_objects_def)

lemma printed_objects_Cons:
  "printed_objects (e # evs)
     = (case printed_object e of None \<Rightarrow> printed_objects evs
        | Some obj \<Rightarrow> obj # printed_objects evs)"
  by (simp add: printed_objects_def split: option.splits)

lemma observe_fetch_events [simp]:
  "export_calls (fetch_events b) = []"
  "aggregation_inputs (fetch_events b) = []"
  "printed_objects (fetch_events b) = []"
  by (simp_all add: fetch_events_def export_calls_def aggregation_inputs_def printed_objects_def)

lemma observe_export_events [simp]:
  "export_calls (map (\<lambda>info. CallExport (Object info) exact) infos)
     = map (\<lambda>info. (Object info, exact)) infos"
  "aggregation_inputs (map (\<lambda>info. CallExport (Object info) exact) infos) = []"
  "printed_objects (map (\<lambda>info. CallExport (Object info) exact) infos) = []"
  by (induction infos)
     (simp_all add: export_calls_def aggregation_inputs_def printed_objects_def)

lemma observe_render [simp]:
  "export_calls (fst (render pk cmd result)) = []"
  "aggregation_inputs (fst (render pk cmd result)) = []"
  by (simp_all add: render_def Let_def then_step_cases export_calls_def aggregation_inputs_def
        split: sum.splits prod.splits)

lemma observe_aggregate [simp]:
  "export_calls (fst (aggregate pk asTemplate one infos v)) = []"
  "aggregation_inputs (fst (aggregate pk asTemplate one infos v)) = [infos]"
  "printed_objects (fst (aggregate pk asTemplate one infos v)) = []"
  by (simp_all add: aggregate_def Let_def then_step_cases export_calls_def aggregation_inputs_def
        printed_objects_def split: sum.splits prod.splits)

lemma observe_aggregate_render [simp]:
  "export_calls (fst (then_step (aggregate pk asTemplate one infos v) (render pk cmd))) = []"
  "aggregation_inputs (fst (then_step (aggregate pk asTemplate one infos v) (render pk cmd)))
     = [infos]"
  by (simp_all add: then_step_cases split: sum.splits)

lemma printed_render:
  "printed_objects (fst (render pk cmd result))
     = (case GetPrinter pk (output_format cmd) (flag_template cmd) of
          Inl e \<Rightarrow> [] | Inr p \<Rightarrow> [result])"
  by (simp add: render_def Let_def then_step_cases printed_objects_def
        split: sum.splits prod.splits)

lemma printed_then_render:
  "printed_objects (fst (then_step (evs, r) (render pk cmd)))
     = printed_objects evs @
       (case r of Inl e \<Rightarrow> []
        | Inr result \<Rightarrow>
            (case GetPrinter pk (output_format cmd) (flag_template cmd) of
               Inl e \<Rightarrow> [] | Inr p \<Rightarrow> [result]))"
  by (simp add: then_step_cases printed_render split: sum.splits)

subsection \<open>The sanitize loop\<close>

text \<open>
  The loop, from any state: it appends to \<^verbatim>\<open>newInfos\<close> every document that did not
  produce the skip signal, to \<^verbatim>\<open>errs\<close> every error that is not the skip signal, and
  calls \<^verbatim>\<open>Export\<close> once on every document.
\<close>

lemma sanitize_loop_eq:
  "sanitize_loop exporter exact infos (newInfos, errs, evs) =
     (newInfos @ not_omitted exporter exact infos,
      errs @ failures exporter exact infos,
      evs @ map (\<lambda>info. CallExport (Object info) exact) infos)"
proof (induction infos arbitrary: newInfos errs evs)
  case Nil
  show ?case by (simp add: not_omitted_def failures_def)
next
  case (Cons info infos)
  show ?case
    by (cases "exporter (Object info) exact")
       (auto simp: Cons.IH not_omitted_def failures_def exported_def export_err_def
          split: option.splits)
qed

lemma sanitize_pass_not_raw:
  "sanitize_pass exporter False exact infos =
     (map (\<lambda>info. CallExport (Object info) exact) infos,
      if failures exporter exact infos = [] then Inr (not_omitted exporter exact infos)
      else Inl (Aggregate (failures exporter exact infos)))"
  by (simp add: sanitize_pass_def sanitize_loop_eq NewAggregate_def)

lemma sanitize_pass_raw: "sanitize_pass exporter True exact infos = ([], Inr infos)"
  by (simp add: sanitize_pass_def)

lemma failures_empty_iff:
  "failures exporter exact infos = [] \<longleftrightarrow>
     (\<forall>info\<in>set infos. export_err exporter exact info = None
                         \<or> export_err exporter exact info = Some ErrExportOmit)"
  by (induction infos) (auto simp: failures_def split: option.splits)

lemma not_omitted_no_failures:
  assumes "failures exporter exact infos = []"
  shows "not_omitted exporter exact infos
           = map (exported exporter exact)
               (filter (\<lambda>info. export_err exporter exact info = None) infos)"
proof -
  have "filter (\<lambda>info. export_err exporter exact info \<noteq> Some ErrExportOmit) infos
          = filter (\<lambda>info. export_err exporter exact info = None) infos"
    using assms by (intro filter_cong) (auto simp: failures_empty_iff)
  then show ?thesis by (simp add: not_omitted_def)
qed

lemma export_calls_sanitize_pass:
  "export_calls (fst (sanitize_pass exporter raw exact infos))
     = (if raw then [] else map (\<lambda>info. (Object info, exact)) infos)"
  by (cases raw) (simp_all add: sanitize_pass_raw sanitize_pass_not_raw)

subsection \<open>Aggregation\<close>

lemma AsVersionedObjects_Inr:
  "AsVersionedObjects pk infos v = Inr objects \<Longrightarrow>
     length objects = length infos
     \<and> (\<forall>k<length infos. tryConvert pk (Object (infos ! k)) v = Inr (objects ! k))"
proof (induction infos arbitrary: objects)
  case Nil
  then show ?case by simp
next
  case (Cons info infos)
  from Cons.prems obtain converted rest where
    c: "tryConvert pk (Object info) v = Inr converted"
    and r: "AsVersionedObjects pk infos v = Inr rest"
    and o: "objects = converted # rest"
    by (auto split: sum.splits)
  from Cons.IH [OF r] show ?case
    using c o by (auto simp: nth_Cons split: nat.splits)
qed

lemma aggregate_template:
  assumes "asTemplate \<noteq> []" and "AsVersionedObjects pk infos v = Inr objects"
  shows "aggregate pk asTemplate one infos v
           = ([CallAsVersionedObjects infos v, CallConvertToVersion (Template asTemplate objects) v],
              ConvertToVersion pk (Template asTemplate objects) v)"
  using assms by (simp add: aggregate_def then_step_Inr Let_def)

lemma aggregate_no_template:
  assumes "AsVersionedObjects pk infos v = Inr objects"
  shows "aggregate pk [] one infos v
           = ([CallAsVersionedObject infos (\<not> one) v],
              if length infos = 1 \<and> one then Inr (objects ! 0)
              else ConvertToVersion pk (ApiList objects) v)"
proof -
  have len: "length objects = length infos"
    using AsVersionedObjects_Inr [OF assms] by simp
  show ?thesis
    using assms len
    by (cases objects; cases "tl objects")
       (auto simp: aggregate_def AsVersionedObject_def split: list.splits)
qed

subsection \<open>RunExport after a successful fetch\<close>

lemma RunExport_after_fetch:
  assumes "\<not> (flag_exact cmd \<and> flag_raw cmd)"
    and "ClientConfig f = Inr clientVersion"
    and "DefaultNamespace f = Inr (cmdNamespace, explicit)"
    and "Infos f (export_builder cmd cmdNamespace explicit args filenames) = Inr (one, infos)"
  shows "RunExport pk f exporter cmd args filenames =
     then_step (fetch_events (export_builder cmd cmdNamespace explicit args filenames), Inr ())
       (\<lambda>_. if infos = [] then ([], Inl (Errorf ''no resources found - nothing to export''))
            else then_step (sanitize_pass exporter (flag_raw cmd) (flag_exact cmd) infos)
              (\<lambda>infos'. then_step
                 (aggregate pk (flag_as_template cmd) one infos' (OutputVersion cmd clientVersion))
                 (render pk cmd)))"
  using assms
  by (simp add: RunExport_def Let_def then_step_def fetch_events_def split: prod.splits sum.splits)

subsection \<open>Flag validation\<close>

text \<open>
  C1. With both \<^verbatim>\<open>--exact\<close> and \<^verbatim>\<open>--raw\<close> set, \<^verbatim>\<open>RunExport\<close> returns the usage
  error at once. Its trace is empty: no collaborator was called, so the resource builder
  was never constructed and the fetch never ran.
\<close>

theorem usage_error_before_fetch:
  "flag_exact cmd \<and> flag_raw cmd \<Longrightarrow>
     RunExport pk f exporter cmd args filenames
       = ([], Inl (UsageError ''--exact and --raw may not both be specified''))"
  by (simp add: RunExport_def)

theorem usage_error_before_fetch_witness:
  "flag_exact (demo_cmd\<lparr>flag_exact := True, flag_raw := True\<rparr>)
   \<and> flag_raw (demo_cmd\<lparr>flag_exact := True, flag_raw := True\<rparr>)
   \<and> RunExport demo_packages demo_factory demo_exporter
        (demo_cmd\<lparr>flag_exact := True, flag_raw := True\<rparr>) [''svc/a''] []
       = ([], Inl (UsageError ''--exact and --raw may not both be specified''))"
  using usage_error_before_fetch [of "demo_cmd\<lparr>flag_exact := True, flag_raw := True\<rparr>"
      demo_packages demo_factory demo_exporter "[''svc/a'']" "[]"]
  by simp

subsection \<open>Empty fetch\<close>

text \<open>
  C3. Whenever the fetch is reached (the flags are valid, the client configuration and
  the namespace are available) and returns no document, \<^verbatim>\<open>RunExport\<close> returns the
  error "no resources found - nothing to export", whatever the policy flags and the
  template name are; nothing is called after the fetch, so nothing is printed.
\<close>

theorem empty_fetch_fails:
  assumes "\<not> (flag_exact cmd \<and> flag_raw cmd)"
    and "ClientConfig f = Inr clientVersion"
    and "DefaultNamespace f = Inr (cmdNamespace, explicit)"
    and "Infos f (export_builder cmd cmdNamespace explicit args filenames) = Inr (one, [])"
  shows "RunExport pk f exporter cmd args filenames
           = (fetch_events (export_builder cmd cmdNamespace explicit args filenames),
              Inl (Errorf ''no resources found - nothing to export''))"
  by (simp add: RunExport_after_fetch [OF assms] then_step_Inr)

theorem empty_fetch_fails_witness:
  "RunExport demo_packages demo_factory demo_exporter
     (demo_cmd\<lparr>flag_raw := True, flag_as_template := ''x''\<rparr>) [''pods''] []
     = ([CallClientConfig, CallDefaultNamespace,
         CallNewBuilder (export_builder (demo_cmd\<lparr>flag_raw := True, flag_as_template := ''x''\<rparr>)
            ''default'' False [''pods''] []),
         CallInfos (export_builder (demo_cmd\<lparr>flag_raw := True, flag_as_template := ''x''\<rparr>)
            ''default'' False [''pods''] [])],
        Inl (Errorf ''no resources found - nothing to export''))"
  using empty_fetch_fails [of "demo_cmd\<lparr>flag_raw := True, flag_as_template := ''x''\<rparr>"
      demo_factory "''v1''" "''default''" False "[''pods'']" "[]" False
      demo_packages demo_exporter]
  by (simp add: demo_defs)

subsection \<open>The surviving collection\<close>

text \<open>
  C2. On a run that sanitizes (no \<^verbatim>\<open>--raw\<close>), the sanitize pass hands on a
  surviving collection only when no \<^verbatim>\<open>Export\<close> call returned an error other than
  the skip signal, and that collection is exactly the fetched documents whose
  \<^verbatim>\<open>Export\<close> returned neither the skip signal nor an error, in fetch order and as
  \<^verbatim>\<open>Export\<close> left them. When some document fails, the pass returns the aggregate
  error instead: no collection survives, so a failing document is in none, and nothing is
  handed to the aggregation.
\<close>

theorem surviving_collection:
  assumes "\<not> flag_raw cmd"
    and "ClientConfig f = Inr clientVersion"
    and "DefaultNamespace f = Inr (cmdNamespace, explicit)"
    and "Infos f (export_builder cmd cmdNamespace explicit args filenames) = Inr (one, infos)"
    and "infos \<noteq> []"
  shows "snd (sanitize_pass exporter (flag_raw cmd) (flag_exact cmd) infos)
           = (if \<forall>info\<in>set infos.
                   snd (exporter (Object info) (flag_exact cmd)) = None
                   \<or> snd (exporter (Object info) (flag_exact cmd)) = Some ErrExportOmit
              then Inr (map (exported exporter (flag_exact cmd))
                         (filter (\<lambda>info. snd (exporter (Object info) (flag_exact cmd)) = None)
                            infos))
              else Inl (Aggregate
                         (filter (\<lambda>e. e \<noteq> ErrExportOmit)
                            (List.map_filter
                               (\<lambda>info. snd (exporter (Object info) (flag_exact cmd))) infos))))
       \<and> aggregation_inputs (fst (RunExport pk f exporter cmd args filenames))
           = (if \<forall>info\<in>set infos.
                   snd (exporter (Object info) (flag_exact cmd)) = None
                   \<or> snd (exporter (Object info) (flag_exact cmd)) = Some ErrExportOmit
              then [map (exported exporter (flag_exact cmd))
                      (filter (\<lambda>info. snd (exporter (Object info) (flag_exact cmd)) = None)
                         infos)]
              else [])"
proof -
  let ?ex = "flag_exact cmd"
  have ok: "\<not> (flag_exact cmd \<and> flag_raw cmd)" using assms(1) by simp
  note run = RunExport_after_fetch [OF ok assms(2) assms(3) assms(4)]
  have cond: "(\<forall>info\<in>set infos.
                   snd (exporter (Object info) ?ex) = None
                   \<or> snd (exporter (Object info) ?ex) = Some ErrExportOmit)
              \<longleftrightarrow> failures exporter ?ex infos = []"
    by (simp add: failures_empty_iff export_err_def)
  have fails: "filter (\<lambda>e. e \<noteq> ErrExportOmit)
                 (List.map_filter (\<lambda>info. snd (exporter (Object info) ?ex)) infos)
               = failures exporter ?ex infos"
    by (simp add: failures_def export_err_def [abs_def])
  have surv: "failures exporter ?ex infos = [] \<Longrightarrow>
                not_omitted exporter ?ex infos
                  = map (exported exporter ?ex)
                      (filter (\<lambda>info. snd (exporter (Object info) ?ex) = None) infos)"
    by (simp add: not_omitted_no_failures export_err_def [abs_def])
  have pass: "snd (sanitize_pass exporter (flag_raw cmd) ?ex infos)
                = (if failures exporter ?ex infos = []
                   then Inr (not_omitted exporter ?ex infos)
                   else Inl (Aggregate (failures exporter ?ex infos)))"
    using assms(1) by (simp add: sanitize_pass_not_raw)
  have inputs: "aggregation_inputs (fst (RunExport pk f exporter cmd args filenames))
                  = (if failures exporter ?ex infos = []
                     then [not_omitted exporter ?ex infos] else [])"
    using assms(1) assms(5)
    by (simp add: run then_step_Inr then_step_Inl sanitize_pass_not_raw)
  show ?thesis
    unfolding pass inputs cond fails using surv by simp
qed

theorem surviving_collection_witness:
  "aggregation_inputs (fst (RunExport demo_packages demo_factory demo_exporter demo_cmd
          [''svc,secret''] []))
     = [[demo_info ''a'' [''ports''], demo_info ''b'' [''ports'']]]
   \<and> snd (sanitize_pass demo_exporter False False
          [demo_info ''d1'' [''broken''], demo_info ''d2'' [''resourceVersion''],
           demo_info ''d3'' [''broken'']])
     = Inl (Aggregate [Errorf ''cannot export d1'', Errorf ''cannot export d3''])
   \<and> aggregation_inputs (fst (RunExport demo_packages demo_factory demo_exporter demo_cmd
          [''dc''] [])) = []"
  using surviving_collection [of demo_cmd demo_factory "''v1''" "''default''" False
      "[''svc,secret'']" "[]" False
      "[demo_info ''a'' [''clusterIP'', ''resourceVersion'', ''ports''],
        demo_info ''t'' [''token''], demo_info ''b'' [''ports'']]"
      demo_exporter demo_packages]
    surviving_collection [of demo_cmd demo_factory "''v1''" "''default''" False
      "[''dc'']" "[]" False
      "[demo_info ''d1'' [''broken''], demo_info ''d2'' [''resourceVersion''],
        demo_info ''d3'' [''broken'']]"
      demo_exporter demo_packages]
  by (simp add: demo_defs exported_def)

subsection \<open>Raw bypass\<close>

text \<open>
  C4. Under \<^verbatim>\<open>--raw\<close>, on a run that fetched at least one document,
  \<^verbatim>\<open>Export\<close> is never called and the collection handed to the aggregation is the
  fetched collection itself, in the same order.
\<close>

theorem raw_bypass:
  assumes "flag_raw cmd" and "\<not> flag_exact cmd"
    and "ClientConfig f = Inr clientVersion"
    and "DefaultNamespace f = Inr (cmdNamespace, explicit)"
    and "Infos f (export_builder cmd cmdNamespace explicit args filenames) = Inr (one, infos)"
    and "infos \<noteq> []"
  shows "export_calls (fst (RunExport pk f exporter cmd args filenames)) = []
       \<and> aggregation_inputs (fst (RunExport pk f exporter cmd args filenames)) = [infos]"
proof -
  have ok: "\<not> (flag_exact cmd \<and> flag_raw cmd)" using assms(2) by simp
  show ?thesis
    using assms(1) assms(6)
    by (simp add: RunExport_after_fetch [OF ok assms(3) assms(4) assms(5)]
          then_step_Inr sanitize_pass_raw)
qed

theorem raw_bypass_witness:
  "export_calls (fst (RunExport demo_packages demo_factory demo_exporter
       (demo_cmd\<lparr>flag_raw := True\<rparr>) [''svc,secret''] [])) = []
   \<and> aggregation_inputs (fst (RunExport demo_packages demo_factory demo_exporter
       (demo_cmd\<lparr>flag_raw := True\<rparr>) [''svc,secret''] []))
       = [[demo_info ''a'' [''clusterIP'', ''resourceVersion'', ''ports''],
           demo_info ''t'' [''token''],
           demo_info ''b'' [''ports'']]]"
  using raw_bypass [of "demo_cmd\<lparr>flag_raw := True\<rparr>" demo_factory "''v1''" "''default''" False
      "[''svc,secret'']" "[]" False
      "[demo_info ''a'' [''clusterIP'', ''resourceVersion'', ''ports''],
        demo_info ''t'' [''token''], demo_info ''b'' [''ports'']]"
      demo_packages demo_exporter]
  by (simp add: demo_defs)

subsection \<open>Skipped documents\<close>

text \<open>
  C5. On a run that sanitizes (no \<^verbatim>\<open>--raw\<close>): \<^verbatim>\<open>Export\<close> is called on every
  fetched document in fetch order, so a skip does not stop the pass; the collection handed
  to the aggregation, when the pass collected no error, is the fetched documents without
  those whose \<^verbatim>\<open>Export\<close> returned \<^verbatim>\<open>ErrExportOmit\<close>; and the errors the loop
  collects are the returned errors other than \<^verbatim>\<open>ErrExportOmit\<close>, so a skip is never
  among them.
\<close>

theorem skip_excluded:
  assumes "\<not> flag_raw cmd"
    and "ClientConfig f = Inr clientVersion"
    and "DefaultNamespace f = Inr (cmdNamespace, explicit)"
    and "Infos f (export_builder cmd cmdNamespace explicit args filenames) = Inr (one, infos)"
    and "infos \<noteq> []"
  shows "export_calls (fst (RunExport pk f exporter cmd args filenames))
           = map (\<lambda>info. (Object info, flag_exact cmd)) infos
       \<and> aggregation_inputs (fst (RunExport pk f exporter cmd args filenames))
           = (if fst (snd (sanitize_loop exporter (flag_exact cmd) infos ([], [], []))) = []
              then [map (exported exporter (flag_exact cmd))
                      (filter (\<lambda>info. snd (exporter (Object info) (flag_exact cmd))
                                        \<noteq> Some ErrExportOmit) infos)]
              else [])
       \<and> fst (snd (sanitize_loop exporter (flag_exact cmd) infos ([], [], [])))
           = filter (\<lambda>e. e \<noteq> ErrExportOmit)
               (List.map_filter (\<lambda>info. snd (exporter (Object info) (flag_exact cmd))) infos)
       \<and> ErrExportOmit \<notin> set (fst (snd (sanitize_loop exporter (flag_exact cmd) infos
                                            ([], [], []))))"
proof -
  have ok: "\<not> (flag_exact cmd \<and> flag_raw cmd)" using assms(1) by simp
  note run = RunExport_after_fetch [OF ok assms(2) assms(3) assms(4)]
  show ?thesis
    using assms(1) assms(5)
    by (simp add: run then_step_Inr then_step_Inl sanitize_pass_not_raw sanitize_loop_eq
          not_omitted_def failures_def export_err_def [abs_def])
qed

theorem skip_excluded_witness:
  "export_calls (fst (RunExport demo_packages demo_factory demo_exporter demo_cmd
        [''svc,secret''] []))
     = [(Resource (''a'', [''clusterIP'', ''resourceVersion'', ''ports'']), False),
        (Resource (''t'', [''token'']), False),
        (Resource (''b'', [''ports'']), False)]
   \<and> aggregation_inputs (fst (RunExport demo_packages demo_factory demo_exporter demo_cmd
        [''svc,secret''] []))
     = [[demo_info ''a'' [''ports''], demo_info ''b'' [''ports'']]]
   \<and> fst (snd (sanitize_loop demo_exporter False
        [demo_info ''a'' [''clusterIP'', ''resourceVersion'', ''ports''],
         demo_info ''t'' [''token''], demo_info ''b'' [''ports'']] ([], [], []))) = []"
  using skip_excluded [of demo_cmd demo_factory "''v1''" "''default''" False
      "[''svc,secret'']" "[]" False
      "[demo_info ''a'' [''clusterIP'', ''resourceVersion'', ''ports''],
        demo_info ''t'' [''token''], demo_info ''b'' [''ports'']]"
      demo_packages demo_exporter]
  by (simp add: demo_defs exported_def)

subsection \<open>Aggregate error\<close>

text \<open>
  C6. When some \<^verbatim>\<open>Export\<close> call of the pass returns an error that is not the skip
  signal, \<^verbatim>\<open>RunExport\<close> still calls \<^verbatim>\<open>Export\<close> on every fetched document, then
  returns one aggregate error that holds every such error in fetch order; the trace ends
  with the last \<^verbatim>\<open>Export\<close> call: nothing is aggregated, converted or printed.
\<close>

theorem aggregate_error_reported:
  assumes "\<not> flag_raw cmd"
    and "ClientConfig f = Inr clientVersion"
    and "DefaultNamespace f = Inr (cmdNamespace, explicit)"
    and "Infos f (export_builder cmd cmdNamespace explicit args filenames) = Inr (one, infos)"
    and "failures exporter (flag_exact cmd) infos \<noteq> []"
  shows "RunExport pk f exporter cmd args filenames
           = (fetch_events (export_builder cmd cmdNamespace explicit args filenames)
                @ map (\<lambda>info. CallExport (Object info) (flag_exact cmd)) infos,
              Inl (Aggregate (failures exporter (flag_exact cmd) infos)))
       \<and> failures exporter (flag_exact cmd) infos
           = filter (\<lambda>e. e \<noteq> ErrExportOmit)
               (List.map_filter (\<lambda>info. snd (exporter (Object info) (flag_exact cmd))) infos)"
proof -
  have ok: "\<not> (flag_exact cmd \<and> flag_raw cmd)" using assms(1) by simp
  have ne: "infos \<noteq> []" using assms(5) by (auto simp: failures_def)
  have "failures exporter (flag_exact cmd) infos
           = filter (\<lambda>e. e \<noteq> ErrExportOmit)
               (List.map_filter (\<lambda>info. snd (exporter (Object info) (flag_exact cmd))) infos)"
    by (simp add: failures_def export_err_def [abs_def])
  then show ?thesis
    using assms(1) assms(5) ne
    by (simp add: RunExport_after_fetch [OF ok assms(2) assms(3) assms(4)]
          then_step_Inr then_step_Inl sanitize_pass_not_raw)
qed

theorem aggregate_error_reported_witness:
  "RunExport demo_packages demo_factory demo_exporter demo_cmd [''dc''] []
     = ([CallClientConfig, CallDefaultNamespace,
         CallNewBuilder (export_builder demo_cmd ''default'' False [''dc''] []),
         CallInfos (export_builder demo_cmd ''default'' False [''dc''] []),
         CallExport (Resource (''d1'', [''broken''])) False,
         CallExport (Resource (''d2'', [''resourceVersion''])) False,
         CallExport (Resource (''d3'', [''broken''])) False],
        Inl (Aggregate [Errorf ''cannot export d1'', Errorf ''cannot export d3'']))"
  using aggregate_error_reported [of demo_cmd demo_factory "''v1''" "''default''" False
      "[''dc'']" "[]" False
      "[demo_info ''d1'' [''broken''], demo_info ''d2'' [''resourceVersion''],
        demo_info ''d3'' [''broken'']]"
      demo_exporter demo_packages]
  by (simp add: demo_defs failures_def export_err_def)

subsection \<open>Template wrapping\<close>

text \<open>
  C7. With a template name, for any number of surviving documents (one included), the
  aggregated result is the version conversion of a \<^verbatim>\<open>Template\<close> whose name is the
  given name and whose \<^verbatim>\<open>Objects\<close> are the surviving documents, each converted to the
  output version, in fetch order and as many as there are survivors; that object is the
  only one ever printed. \<^verbatim>\<open>Export\<close> is called on the fetched documents only: the
  template is not sanitized.
\<close>

theorem template_wrapping:
  assumes "\<not> (flag_exact cmd \<and> flag_raw cmd)"
    and "ClientConfig f = Inr clientVersion"
    and "DefaultNamespace f = Inr (cmdNamespace, explicit)"
    and "Infos f (export_builder cmd cmdNamespace explicit args filenames) = Inr (one, infos)"
    and "infos \<noteq> []"
    and "sanitize_pass exporter (flag_raw cmd) (flag_exact cmd) infos = (evs, Inr survivors)"
    and "flag_as_template cmd \<noteq> []"
    and "AsVersionedObjects pk survivors (OutputVersion cmd clientVersion) = Inr objects"
  shows "snd (aggregate pk (flag_as_template cmd) one survivors (OutputVersion cmd clientVersion))
           = ConvertToVersion pk (Template (flag_as_template cmd) objects)
               (OutputVersion cmd clientVersion)
       \<and> length objects = length survivors
       \<and> (\<forall>k<length survivors.
             tryConvert pk (Object (survivors ! k)) (OutputVersion cmd clientVersion)
               = Inr (objects ! k))
       \<and> printed_objects (fst (RunExport pk f exporter cmd args filenames))
           = (case ConvertToVersion pk (Template (flag_as_template cmd) objects)
                     (OutputVersion cmd clientVersion) of
                Inl e \<Rightarrow> []
              | Inr result \<Rightarrow>
                  (case GetPrinter pk (output_format cmd) (flag_template cmd) of
                     Inl e \<Rightarrow> [] | Inr p \<Rightarrow> [result]))
       \<and> export_calls (fst (RunExport pk f exporter cmd args filenames))
           = (if flag_raw cmd then []
              else map (\<lambda>info. (Object info, flag_exact cmd)) infos)"
proof -
  note run = RunExport_after_fetch [OF assms(1) assms(2) assms(3) assms(4)]
  note agg = aggregate_template [OF assms(7) assms(8), of one]
  have evs: "evs = fst (sanitize_pass exporter (flag_raw cmd) (flag_exact cmd) infos)"
    using assms(6) by simp
  have pevs: "printed_objects evs = []"
    unfolding evs
    by (cases "flag_raw cmd") (simp_all add: sanitize_pass_raw sanitize_pass_not_raw)
  have cevs: "export_calls evs = (if flag_raw cmd then []
              else map (\<lambda>info. (Object info, flag_exact cmd)) infos)"
    unfolding evs by (rule export_calls_sanitize_pass)
  have a: "snd (aggregate pk (flag_as_template cmd) one survivors (OutputVersion cmd clientVersion))
           = ConvertToVersion pk (Template (flag_as_template cmd) objects)
               (OutputVersion cmd clientVersion)"
    by (simp add: agg)
  have p: "printed_objects (fst (RunExport pk f exporter cmd args filenames))
           = (case ConvertToVersion pk (Template (flag_as_template cmd) objects)
                     (OutputVersion cmd clientVersion) of
                Inl e \<Rightarrow> []
              | Inr result \<Rightarrow>
                  (case GetPrinter pk (output_format cmd) (flag_template cmd) of
                     Inl e \<Rightarrow> [] | Inr p \<Rightarrow> [result]))"
    using assms(5) pevs
    by (simp add: run then_step_Inr assms(6) agg printed_then_render printed_objects_Cons)
  have c: "export_calls (fst (RunExport pk f exporter cmd args filenames))
           = (if flag_raw cmd then []
              else map (\<lambda>info. (Object info, flag_exact cmd)) infos)"
    using assms(5) cevs
    by (simp add: run then_step_Inr assms(6))
  show ?thesis
    using a p c AsVersionedObjects_Inr [OF assms(8)] by simp
qed

theorem template_wrapping_witness:
  "snd (aggregate demo_packages ''x'' True [demo_info ''a'' [''ports'']] ''v1'')
     = Inr (Template ''x'' [Resource (''a'', [''ports''])])
   \<and> printed_objects (fst (RunExport demo_packages demo_factory demo_exporter
        (demo_cmd\<lparr>flag_as_template := ''x''\<rparr>) [''svc/a''] []))
     = [Template ''x'' [Resource (''a'', [''ports''])]]
   \<and> export_calls (fst (RunExport demo_packages demo_factory demo_exporter
        (demo_cmd\<lparr>flag_as_template := ''x''\<rparr>) [''svc/a''] []))
     = [(Resource (''a'', [''clusterIP'', ''resourceVersion'', ''ports'']), False)]"
  using template_wrapping [of "demo_cmd\<lparr>flag_as_template := ''x''\<rparr>" demo_factory "''v1''"
      "''default''" False "[''svc/a'']" "[]" True
      "[demo_info ''a'' [''clusterIP'', ''resourceVersion'', ''ports'']]"
      demo_exporter
      "[CallExport (Resource (''a'', [''clusterIP'', ''resourceVersion'', ''ports''])) False]"
      "[demo_info ''a'' [''ports'']]"
      demo_packages
      "[Resource (''a'', [''ports''])]"]
  by (simp add: demo_defs sanitize_pass_def NewAggregate_def OutputVersion_def)

subsection \<open>Single object or list\<close>

text \<open>
  C8. Without a template name: when exactly one document survives and the fetch reported
  a singular selection (\<^verbatim>\<open>one\<close>), the aggregated result is that document (converted
  to the output version), not wrapped in a list; otherwise it is the version conversion of
  a list whose items are all the surviving documents in fetch order.
\<close>

theorem object_or_list:
  assumes "\<not> (flag_exact cmd \<and> flag_raw cmd)"
    and "ClientConfig f = Inr clientVersion"
    and "DefaultNamespace f = Inr (cmdNamespace, explicit)"
    and "Infos f (export_builder cmd cmdNamespace explicit args filenames) = Inr (one, infos)"
    and "infos \<noteq> []"
    and "sanitize_pass exporter (flag_raw cmd) (flag_exact cmd) infos = (evs, Inr survivors)"
    and "flag_as_template cmd = []"
    and "AsVersionedObjects pk survivors (OutputVersion cmd clientVersion) = Inr objects"
  shows "snd (aggregate pk (flag_as_template cmd) one survivors (OutputVersion cmd clientVersion))
           = (if length survivors = 1 \<and> one then Inr (objects ! 0)
              else ConvertToVersion pk (ApiList objects) (OutputVersion cmd clientVersion))
       \<and> length objects = length survivors
       \<and> (\<forall>k<length survivors.
             tryConvert pk (Object (survivors ! k)) (OutputVersion cmd clientVersion)
               = Inr (objects ! k))
       \<and> printed_objects (fst (RunExport pk f exporter cmd args filenames))
           = (case (if length survivors = 1 \<and> one then Inr (objects ! 0)
                    else ConvertToVersion pk (ApiList objects)
                           (OutputVersion cmd clientVersion)) of
                Inl e \<Rightarrow> []
              | Inr result \<Rightarrow>
                  (case GetPrinter pk (output_format cmd) (flag_template cmd) of
                     Inl e \<Rightarrow> [] | Inr p \<Rightarrow> [result]))"
proof -
  note run = RunExport_after_fetch [OF assms(1) assms(2) assms(3) assms(4)]
  note agg = aggregate_no_template [OF assms(8), of one]
  have evs: "evs = fst (sanitize_pass exporter (flag_raw cmd) (flag_exact cmd) infos)"
    using assms(6) by simp
  have pevs: "printed_objects evs = []"
    unfolding evs
    by (cases "flag_raw cmd") (simp_all add: sanitize_pass_raw sanitize_pass_not_raw)
  have a: "snd (aggregate pk (flag_as_template cmd) one survivors (OutputVersion cmd clientVersion))
           = (if length survivors = 1 \<and> one then Inr (objects ! 0)
              else ConvertToVersion pk (ApiList objects) (OutputVersion cmd clientVersion))"
    by (simp add: agg assms(7))
  have p: "printed_objects (fst (RunExport pk f exporter cmd args filenames))
           = (case (if length survivors = 1 \<and> one then Inr (objects ! 0)
                    else ConvertToVersion pk (ApiList objects)
                           (OutputVersion cmd clientVersion)) of
                Inl e \<Rightarrow> []
              | Inr result \<Rightarrow>
                  (case GetPrinter pk (output_format cmd) (flag_template cmd) of
                     Inl e \<Rightarrow> [] | Inr p \<Rightarrow> [result]))"
    using assms(5) pevs
    by (simp add: run then_step_Inr assms(6) assms(7) agg printed_then_render
          printed_objects_Cons)
  show ?thesis
    using a p AsVersionedObjects_Inr [OF assms(8)] by simp
qed

theorem object_or_list_witness:
  "printed_objects (fst (RunExport demo_packages demo_factory demo_exporter demo_cmd
        [''svc/a''] []))
     = [Resource (''a'', [''ports''])]
   \<and> printed_objects (fst (RunExport demo_packages demo_factory demo_exporter demo_cmd
        [''svc,secret''] []))
     = [ApiList [Resource (''a'', [''ports'']), Resource (''b'', [''ports''])]]"
  using object_or_list [of demo_cmd demo_factory "''v1''"
      "''default''" False "[''svc/a'']" "[]" True
      "[demo_info ''a'' [''clusterIP'', ''resourceVersion'', ''ports'']]"
      demo_exporter
      "[CallExport (Resource (''a'', [''clusterIP'', ''resourceVersion'', ''ports''])) False]"
      "[demo_info ''a'' [''ports'']]"
      demo_packages
      "[Resource (''a'', [''ports''])]"]
    object_or_list [of demo_cmd demo_factory "''v1''"
      "''default''" False "[''svc,secret'']" "[]" False
      "[demo_info ''a'' [''clusterIP'', ''resourceVersion'', ''ports''],
        demo_info ''t'' [''token''], demo_info ''b'' [''ports'']]"
      demo_exporter
      "[CallExport (Resource (''a'', [''clusterIP'', ''resourceVersion'', ''ports''])) False,
        CallExport (Resource (''t'', [''token''])) False,
        CallExport (Resource (''b'', [''ports''])) False]"
      "[demo_info ''a'' [''ports''], demo_info ''b'' [''ports'']]"
      demo_packages
      "[Resource (''a'', [''ports'']), Resource (''b'', [''ports''])]"]
  by (simp add: demo_defs sanitize_pass_def NewAggregate_def OutputVersion_def)

subsection \<open>Output format\<close>

lemma render_trace:
  "fst (render pk cmd result)
     = CallGetPrinter (output_format cmd) (flag_template cmd)
       # (case GetPrinter pk (output_format cmd) (flag_template cmd) of
            Inl e \<Rightarrow> []
          | Inr p \<Rightarrow> [CallPrintObj result, WriteOut (fst (p result))])"
  by (simp add: render_def Let_def then_step_cases split: sum.splits prod.splits)

lemma output_format_cases:
  "output_format cmd
     = (if flag_output cmd = []
        then (if flag_template cmd = [] then ''yaml'' else ''template'')
        else flag_output cmd)"
  by (simp add: output_format_def)

text \<open>
  C10. On every run of \<^verbatim>\<open>RunExport\<close> that reaches the printer (the fetch, the
  sanitize pass and the aggregation succeeded), the call that follows the aggregation is
  \<^verbatim>\<open>GetPrinter\<close> with the format "yaml" when \<^verbatim>\<open>--output\<close> is empty and no
  template file is given, "template" when \<^verbatim>\<open>--output\<close> is empty and a template file
  is given, and the value of \<^verbatim>\<open>--output\<close> whenever that is not empty; the printer
  it returns for that format prints the aggregated result, and its error is the run's.
\<close>

theorem output_format_default:
  assumes "\<not> (flag_exact cmd \<and> flag_raw cmd)"
    and "ClientConfig f = Inr clientVersion"
    and "DefaultNamespace f = Inr (cmdNamespace, explicit)"
    and "Infos f (export_builder cmd cmdNamespace explicit args filenames) = Inr (one, infos)"
    and "infos \<noteq> []"
    and "sanitize_pass exporter (flag_raw cmd) (flag_exact cmd) infos = (evs, Inr survivors)"
    and "aggregate pk (flag_as_template cmd) one survivors (OutputVersion cmd clientVersion)
           = (aevs, Inr result)"
  shows "fst (RunExport pk f exporter cmd args filenames)
           = fetch_events (export_builder cmd cmdNamespace explicit args filenames) @ evs @ aevs
             @ CallGetPrinter
                 (if flag_output cmd = []
                  then (if flag_template cmd = [] then ''yaml'' else ''template'')
                  else flag_output cmd)
                 (flag_template cmd)
               # (case GetPrinter pk
                        (if flag_output cmd = []
                         then (if flag_template cmd = [] then ''yaml'' else ''template'')
                         else flag_output cmd)
                        (flag_template cmd) of
                    Inl e \<Rightarrow> []
                  | Inr p \<Rightarrow> [CallPrintObj result, WriteOut (fst (p result))])
       \<and> snd (RunExport pk f exporter cmd args filenames)
           = (case GetPrinter pk
                     (if flag_output cmd = []
                      then (if flag_template cmd = [] then ''yaml'' else ''template'')
                      else flag_output cmd)
                     (flag_template cmd) of
                Inl e \<Rightarrow> Inl e
              | Inr p \<Rightarrow> (case snd (p result) of None \<Rightarrow> Inr () | Some e \<Rightarrow> Inl e))
       \<and> (flag_output cmd = [] \<and> flag_template cmd = [] \<longrightarrow> output_format cmd = ''yaml'')
       \<and> (flag_output cmd = [] \<and> flag_template cmd \<noteq> [] \<longrightarrow> output_format cmd = ''template'')
       \<and> (flag_output cmd \<noteq> [] \<longrightarrow> output_format cmd = flag_output cmd)"
proof -
  note run = RunExport_after_fetch [OF assms(1) assms(2) assms(3) assms(4)]
  have r: "RunExport pk f exporter cmd args filenames
             = (fetch_events (export_builder cmd cmdNamespace explicit args filenames)
                  @ evs @ aevs @ fst (render pk cmd result),
                snd (render pk cmd result))"
    using assms(5) by (simp add: run then_step_Inr assms(6) assms(7))
  have s: "snd (render pk cmd result)
             = (case GetPrinter pk (output_format cmd) (flag_template cmd) of
                  Inl e \<Rightarrow> Inl e
                | Inr p \<Rightarrow> (case snd (p result) of None \<Rightarrow> Inr () | Some e \<Rightarrow> Inl e))"
    by (simp add: render_def Let_def then_step_cases split: sum.splits prod.splits)
  show ?thesis
    unfolding r by (simp add: render_trace s output_format_cases)
qed

theorem output_format_default_witness:
  "fst (RunExport demo_packages demo_factory demo_exporter demo_cmd [''svc/a''] [])
     = fetch_events (export_builder demo_cmd ''default'' False [''svc/a''] [])
       @ [CallExport (Resource (''a'', [''clusterIP'', ''resourceVersion'', ''ports''])) False,
          CallAsVersionedObject [demo_info ''a'' [''ports'']] False ''v1'',
          CallGetPrinter ''yaml'' [],
          CallPrintObj (Resource (''a'', [''ports''])),
          WriteOut ''yaml'']
   \<and> fst (RunExport demo_packages demo_factory demo_exporter
          (demo_cmd\<lparr>flag_template := ''t.tpl''\<rparr>) [''svc/a''] [])
     = fetch_events (export_builder (demo_cmd\<lparr>flag_template := ''t.tpl''\<rparr>)
                       ''default'' False [''svc/a''] [])
       @ [CallExport (Resource (''a'', [''clusterIP'', ''resourceVersion'', ''ports''])) False,
          CallAsVersionedObject [demo_info ''a'' [''ports'']] False ''v1'',
          CallGetPrinter ''template'' ''t.tpl'',
          CallPrintObj (Resource (''a'', [''ports''])),
          WriteOut ''template'']
   \<and> fst (RunExport demo_packages demo_factory demo_exporter
          (demo_cmd\<lparr>flag_output := ''json'', flag_template := ''t.tpl''\<rparr>) [''svc/a''] [])
     = fetch_events (export_builder (demo_cmd\<lparr>flag_output := ''json'', flag_template := ''t.tpl''\<rparr>)
                       ''default'' False [''svc/a''] [])
       @ [CallExport (Resource (''a'', [''clusterIP'', ''resourceVersion'', ''ports''])) False,
          CallAsVersionedObject [demo_info ''a'' [''ports'']] False ''v1'',
          CallGetPrinter ''json'' ''t.tpl'',
          CallPrintObj (Resource (''a'', [''ports''])),
          WriteOut ''json'']"
  using
    output_format_default [where cmd = demo_cmd and f = demo_factory and clientVersion = "''v1''"
      and cmdNamespace = "''default''" and explicit = False and args = "[''svc/a'']"
      and filenames = "[]" and one = True
      and infos = "[demo_info ''a'' [''clusterIP'', ''resourceVersion'', ''ports'']]"
      and exporter = demo_exporter
      and evs = "[CallExport (Resource (''a'', [''clusterIP'', ''resourceVersion'', ''ports''])) False]"
      and survivors = "[demo_info ''a'' [''ports'']]" and pk = demo_packages
      and aevs = "[CallAsVersionedObject [demo_info ''a'' [''ports'']] False ''v1'']"
      and result = "Resource (''a'', [''ports''])"]
    output_format_default [where cmd = "demo_cmd\<lparr>flag_template := ''t.tpl''\<rparr>"
      and f = demo_factory and clientVersion = "''v1''"
      and cmdNamespace = "''default''" and explicit = False and args = "[''svc/a'']"
      and filenames = "[]" and one = True
      and infos = "[demo_info ''a'' [''clusterIP'', ''resourceVersion'', ''ports'']]"
      and exporter = demo_exporter
      and evs = "[CallExport (Resource (''a'', [''clusterIP'', ''resourceVersion'', ''ports''])) False]"
      and survivors = "[demo_info ''a'' [''ports'']]" and pk = demo_packages
      and aevs = "[CallAsVersionedObject [demo_info ''a'' [''ports'']] False ''v1'']"
      and result = "Resource (''a'', [''ports''])"]
    output_format_default [where cmd = "demo_cmd\<lparr>flag_output := ''json'', flag_template := ''t.tpl''\<rparr>"
      and f = demo_factory and clientVersion = "''v1''"
      and cmdNamespace = "''default''" and explicit = False and args = "[''svc/a'']"
      and filenames = "[]" and one = True
      and infos = "[demo_info ''a'' [''clusterIP'', ''resourceVersion'', ''ports'']]"
      and exporter = demo_exporter
      and evs = "[CallExport (Resource (''a'', [''clusterIP'', ''resourceVersion'', ''ports''])) False]"
      and survivors = "[demo_info ''a'' [''ports'']]" and pk = demo_packages
      and aevs = "[CallAsVersionedObject [demo_info ''a'' [''ports'']] False ''v1'']"
      and result = "Resource (''a'', [''ports''])"]
  by (simp add: demo_defs sanitize_pass_def NewAggregate_def OutputVersion_def
        aggregate_def AsVersionedObject_def)

subsection \<open>Idempotence of the sanitizer\<close>

lemma clear_fields_filter:
  "clear_fields ps content = filter (\<lambda>entry. \<forall>p\<in>set ps. \<not> under p (fst entry)) content"
  by (induction ps arbitrary: content) (auto simp: clear_field_def intro: filter_cong)

lemma clear_fields_idem: "clear_fields ps (clear_fields ps content) = clear_fields ps content"
  by (simp add: clear_fields_filter)

lemma routine_for_cleared [simp]:
  "routine_for s (doc\<lparr>doc_content := c\<rparr>) = routine_for s doc"
  by (simp add: routine_for_def)

text \<open>
  C9. For every table, document and policy (\<^verbatim>\<open>Exact\<close> or \<^verbatim>\<open>Default\<close>),
  sanitizing the document that a first \<^verbatim>\<open>Sanitize\<close> left gives that same document:
  the second application changes nothing.
\<close>

theorem Sanitize_idempotent:
  "fst (Sanitize s (fst (Sanitize s doc p)) p) = fst (Sanitize s doc p)"
proof (cases "synthetic (routine_for s doc) doc")
  case True
  then show ?thesis by (simp add: Sanitize_def)
next
  case False
  show ?thesis
  proof (cases "failure (routine_for s doc) doc")
    case (Some msg)
    with False show ?thesis by (simp add: Sanitize_def)
  next
    case None
    with False show ?thesis
      by (simp add: Sanitize_def Let_def clear_fields_idem split: option.splits)
  qed
qed

text \<open>
  The spec's end-to-end scenario on the table above: \<^verbatim>\<open>Default\<close> removes the resource
  version and the generated address, \<^verbatim>\<open>Exact\<close> keeps the address.
\<close>

lemma Sanitize_scenario:
  "Sanitize demo_sanitizer demo_service Default
     = (demo_service\<lparr>doc_content := [([''name''], ''a'')]\<rparr>, Sanitized)"
  "Sanitize demo_sanitizer demo_service Exact
     = (demo_service\<lparr>doc_content := [([''name''], ''a''), ([''generatedIP''], ''10.0.0.5''),
                                       ([''status'', ''ready''], ''true'')]\<rparr>, Sanitized)"
  by (simp_all add: Sanitize_def routine_for_def demo_sanitizer_def demo_service_def
        cleared_by_def clear_field_def under_def)

end
